theory Spec2Isabelle
  imports Main "HOL-Library.Sublist"
begin

section \<open>Go values shared by the two packages\<close>

text \<open>
  A Go interface value (\<^verbatim>\<open>any\<close>) is either a string or a value of some other dynamic
  type (the nil interface included); the type assertion \<^verbatim>\<open>v.(string)\<close> succeeds on the
  first form only.
\<close>

datatype 'a any = AnyString string | AnyOther 'a

text \<open>
  Go errors. \<open>ErrRecordNotFound\<close> is the sentinel \<^verbatim>\<open>gorm.ErrRecordNotFound\<close>, compared
  with \<^verbatim>\<open>!=\<close> in the user package; \<open>ErrorString m\<close> is an error known by its message
  only (a library error, or \<^verbatim>\<open>fmt.Errorf\<close> without \<^verbatim>\<open>%w\<close>);
  \<open>WrapError m e\<close> is \<^verbatim>\<open>fmt.Errorf("m: %w", e)\<close>. A nil error is \<open>None\<close> of
  \<open>error option\<close>.
\<close>

datatype error = ErrRecordNotFound | ErrorString string | WrapError string error

section \<open>Package rag\<close>

subsection \<open>Documents and the record shape of the vector store\<close>

text \<open>
  \<^verbatim>\<open>schema.Document\<close>, \<^verbatim>\<open>redisIndexer.Hashes\<close> and \<^verbatim>\<open>redisIndexer.FieldValue\<close>
  with the fields the source reads and writes. A field the source leaves out of a
  composite literal has Go's zero value (\<open>EmbedKey = ''''\<close>: not embedded). Document
  pointers are allocated by \<open>IndexFile\<close> and by the converter of \<open>NewRAGQuery\<close>, so the
  model works on the pointee.
\<close>

record 'a Document =
  ID :: string
  Content :: string
  MetaData :: "string \<rightharpoonup> 'a any"

record 'a FieldValue =
  Value :: "'a any"
  EmbedKey :: string

record 'a Hashes =
  Key :: string
  Field2Value :: "string \<rightharpoonup> 'a FieldValue"

text \<open>
  The closure \<^verbatim>\<open>DocumentToHashes\<close> of \<^verbatim>\<open>NewRAGIndexer\<close>; \<open>filename\<close> is the
  variable it captures. \<^verbatim>\<open>fmt.Sprintf("%s:%s", a, b)\<close> is \<open>a @ '':'' @ b\<close>.
\<close>

definition DocumentToHashes :: "string \<Rightarrow> 'a Document \<Rightarrow> error + 'a Hashes" where
  "DocumentToHashes filename doc =
     (let source = (case MetaData doc ''source'' of
                      Some (AnyString s) \<Rightarrow> s
                    | _ \<Rightarrow> '''')
      in Inr \<lparr>Key = filename @ '':'' @ ID doc,
              Field2Value = [''content'' \<mapsto> \<lparr>Value = AnyString (Content doc), EmbedKey = ''vector''\<rparr>,
                             ''metadata'' \<mapsto> \<lparr>Value = AnyString source, EmbedKey = ''''\<rparr>]\<rparr>)"

subsection \<open>IndexFile\<close>

text \<open>
  \<^verbatim>\<open>os.ReadFile\<close> and the \<^verbatim>\<open>Store\<close> method of the indexer are the two effects of
  \<^verbatim>\<open>IndexFile\<close>; both are parameters. The result is the returned error together with
  the list of document batches handed to \<open>Store\<close>, in call order.
\<close>

definition IndexFile ::
  "(string \<Rightarrow> error + string) \<Rightarrow> ('a Document list \<Rightarrow> error + string list) \<Rightarrow> string
     \<Rightarrow> error option \<times> 'a Document list list" where
  "IndexFile ReadFile Store filePath =
     (case ReadFile filePath of
        Inl err \<Rightarrow> (Some (WrapError ''failed to read file'' err), [])
      | Inr content \<Rightarrow>
          (let doc = \<lparr>ID = ''doc_1'', Content = content,
                      MetaData = [''source'' \<mapsto> AnyString filePath]\<rparr>
           in case Store [doc] of
                Inl err \<Rightarrow> (Some (WrapError ''failed to store document'' err), [[doc]])
              | Inr ids \<Rightarrow> (None, [[doc]])))"

subsection \<open>DeleteIndex\<close>

text \<open>
  \<^verbatim>\<open>redisPkg.DeleteRedisIndex\<close> belongs to a package outside the two source files and is
  a parameter: the error it returns for a name, or none.
\<close>

definition DeleteIndex :: "(string \<Rightarrow> error option) \<Rightarrow> string \<Rightarrow> error option" where
  "DeleteIndex DeleteRedisIndex filename =
     (case DeleteRedisIndex filename of
        Some err \<Rightarrow> Some (WrapError ''failed to delete redis index'' err)
      | None \<Rightarrow> None)"

subsection \<open>NewRAGQuery\<close>

record EmbeddingConfig =
  BaseURL :: string
  APIKey :: string
  Model :: string

text \<open>An \<^verbatim>\<open>os.DirEntry\<close>, by the two methods the source calls on it.\<close>

record DirEntry =
  entry_Name :: string
  IsDir :: bool

text \<open>
  A search hit of the store (\<^verbatim>\<open>redisCli.Document\<close>). \<open>Fields\<close> is a Go map; it is
  held as the list of its entries in the order the \<^verbatim>\<open>range\<close> loop visits them, whose
  keys are pairwise distinct.
\<close>

record RedisDocument =
  hit_ID :: string
  Fields :: "(string \<times> string) list"

record ('c, 'e, 'a) RetrieverConfig =
  Client :: 'c
  Index :: string
  Dialect :: int
  ReturnFields :: "string list"
  TopK :: int
  VectorField :: string
  DocumentConverter :: "RedisDocument \<Rightarrow> error + 'a Document"
  Embedding :: "'e option"

record ('e, 'r) RAGQuery =
  embedding :: 'e
  retriever :: 'r

text \<open>
  What \<^verbatim>\<open>NewRAGQuery\<close> reads from its surroundings: the configuration, the
  environment variable, the constructor of the embedding client, the directory listing,
  the shared store client, the index-name function of the redis package and the
  constructor of the retriever.
\<close>

record ('c, 'e, 'r, 'a) env =
  RagBaseUrl :: string
  RagEmbeddingModel :: string
  Getenv :: "string \<Rightarrow> string"
  NewEmbedder :: "EmbeddingConfig \<Rightarrow> error + 'e"
  ReadDir :: "string \<Rightarrow> error + DirEntry list"
  Rdb :: 'c
  GenerateIndexName :: "string \<Rightarrow> string"
  NewRetriever :: "('c, 'e, 'a) RetrieverConfig \<Rightarrow> error + 'r"

text \<open>
  The closure \<^verbatim>\<open>DocumentConverter\<close> of \<^verbatim>\<open>NewRAGQuery\<close> is \<open>convert_hit\<close> (the
  configuration field keeps the name); \<open>convert_fields\<close> is the body of its
  \<^verbatim>\<open>range doc.Fields\<close> loop, entry by entry.
\<close>

fun convert_fields :: "(string \<times> string) list \<Rightarrow> 'a Document \<Rightarrow> 'a Document" where
  "convert_fields [] resp = resp"
| "convert_fields ((field, val) # rest) resp =
     convert_fields rest
       (if field = ''content'' then resp\<lparr>Content := val\<rparr>
        else resp\<lparr>MetaData := (MetaData resp)(field \<mapsto> AnyString val)\<rparr>)"

definition convert_hit :: "RedisDocument \<Rightarrow> error + 'a Document" where
  "convert_hit doc =
     Inr (convert_fields (Fields doc) \<lparr>ID = hit_ID doc, Content = '''', MetaData = Map.empty\<rparr>)"

text \<open>The first entry that is not a directory names the file; \<open>''''\<close> when there is none.\<close>

fun first_file :: "DirEntry list \<Rightarrow> string" where
  "first_file [] = ''''"
| "first_file (f # files) = (if \<not> IsDir f then entry_Name f else first_file files)"

definition retrieverConfig :: "'c \<Rightarrow> string \<Rightarrow> 'e \<Rightarrow> ('c, 'e, 'a) RetrieverConfig" where
  "retrieverConfig rdb indexName embedder =
     \<lparr>Client = rdb, Index = indexName, Dialect = 2,
      ReturnFields = [''content'', ''metadata'', ''distance''],
      TopK = 5, VectorField = ''vector'',
      DocumentConverter = convert_hit,
      Embedding = Some embedder\<rparr>"

definition NewRAGQuery :: "('c, 'e, 'r, 'a) env \<Rightarrow> string \<Rightarrow> error + ('e, 'r) RAGQuery" where
  "NewRAGQuery E username =
     (let apiKey = Getenv E ''OPENAI_API_KEY'';
          embedConfig = \<lparr>BaseURL = RagBaseUrl E, APIKey = apiKey, Model = RagEmbeddingModel E\<rparr>
      in case NewEmbedder E embedConfig of
           Inl err \<Rightarrow> Inl (WrapError ''failed to create embedder'' err)
         | Inr embedder \<Rightarrow>
             (let userDir = ''uploads/'' @ username
              in case ReadDir E userDir of
                   Inl err \<Rightarrow> Inl (ErrorString (''no uploaded file found for user '' @ username))
                 | Inr files \<Rightarrow>
                     if length files = 0
                     then Inl (ErrorString (''no uploaded file found for user '' @ username))
                     else (let filename = first_file files
                           in if filename = ''''
                              then Inl (ErrorString (''no valid file found for user '' @ username))
                              else (let indexName = GenerateIndexName E filename
                                    in case NewRetriever E (retrieverConfig (Rdb E) indexName embedder) of
                                         Inl err \<Rightarrow> Inl (WrapError ''failed to create retriever'' err)
                                       | Inr rtr \<Rightarrow> Inr \<lparr>embedding = embedder, retriever = rtr\<rparr>))))"

subsection \<open>BuildRAGPrompt\<close>

text \<open>
  \<^verbatim>\<open>%d\<close> of a non-negative \<^verbatim>\<open>int\<close>: its decimal digits, most significant first. The
  loop index \<open>i\<close> is below \<^verbatim>\<open>len(docs)\<close>, so \<open>i + 1\<close> never overflows.
\<close>

definition digit :: "nat \<Rightarrow> char" where
  "digit d = ''0123456789'' ! d"

fun Sprintf_d :: "nat \<Rightarrow> string" where
  "Sprintf_d n =
     (if n < 10 then [digit n]
      else Sprintf_d (n div 10) @ [digit (n mod 10)])"

declare Sprintf_d.simps [simp del]

text \<open>
  The fixed pieces of the two format strings, as the UTF-8 bytes of the source file:
  the label opening each entry (an opening bracket, two CJK characters, a space), and
  the three parts of the prompt template around its two \<^verbatim>\<open>%s\<close>.
\<close>

definition entry_label :: string where
  "entry_label = [CHR 0x5B, CHR 0xE6, CHR 0x96, CHR 0x87, CHR 0xE6, CHR 0xA1, CHR 0xA3, CHR 0x20]"

definition entry_end :: string where
  "entry_end = [CHR 0x0A, CHR 0x0A]"

definition prompt_head :: string where
  "prompt_head =
     [CHR 0xE5, CHR 0x9F, CHR 0xBA, CHR 0xE4, CHR 0xBA, CHR 0x8E, CHR 0xE4, CHR 0xBB, CHR 0xA5,
      CHR 0xE4, CHR 0xB8, CHR 0x8B, CHR 0xE5, CHR 0x8F, CHR 0x82, CHR 0xE8, CHR 0x80, CHR 0x83,
      CHR 0xE6, CHR 0x96, CHR 0x87, CHR 0xE6, CHR 0xA1, CHR 0xA3, CHR 0xE5, CHR 0x9B, CHR 0x9E,
      CHR 0xE7, CHR 0xAD, CHR 0x94, CHR 0xE7, CHR 0x94, CHR 0xA8, CHR 0xE6, CHR 0x88, CHR 0xB7,
      CHR 0xE7, CHR 0x9A, CHR 0x84, CHR 0xE9, CHR 0x97, CHR 0xAE, CHR 0xE9, CHR 0xA2, CHR 0x98,
      CHR 0xE3, CHR 0x80, CHR 0x82, CHR 0xE5, CHR 0xA6, CHR 0x82, CHR 0xE6, CHR 0x9E, CHR 0x9C,
      CHR 0xE6, CHR 0x96, CHR 0x87, CHR 0xE6, CHR 0xA1, CHR 0xA3, CHR 0xE4, CHR 0xB8, CHR 0xAD,
      CHR 0xE6, CHR 0xB2, CHR 0xA1, CHR 0xE6, CHR 0x9C, CHR 0x89, CHR 0xE7, CHR 0x9B, CHR 0xB8,
      CHR 0xE5, CHR 0x85, CHR 0xB3, CHR 0xE4, CHR 0xBF, CHR 0xA1, CHR 0xE6, CHR 0x81, CHR 0xAF,
      CHR 0xEF, CHR 0xBC, CHR 0x8C, CHR 0xE8, CHR 0xAF, CHR 0xB7, CHR 0xE8, CHR 0xAF, CHR 0xB4,
      CHR 0xE6, CHR 0x98, CHR 0x8E, CHR 0xE6, CHR 0x97, CHR 0xA0, CHR 0xE6, CHR 0xB3, CHR 0x95,
      CHR 0xE6, CHR 0x89, CHR 0xBE, CHR 0xE5, CHR 0x88, CHR 0xB0, CHR 0xE7, CHR 0x9B, CHR 0xB8,
      CHR 0xE5, CHR 0x85, CHR 0xB3, CHR 0xE4, CHR 0xBF, CHR 0xA1, CHR 0xE6, CHR 0x81, CHR 0xAF,
      CHR 0xE3, CHR 0x80, CHR 0x82, CHR 0x0A, CHR 0x0A, CHR 0xE5, CHR 0x8F, CHR 0x82, CHR 0xE8,
      CHR 0x80, CHR 0x83, CHR 0xE6, CHR 0x96, CHR 0x87, CHR 0xE6, CHR 0xA1, CHR 0xA3, CHR 0xEF,
      CHR 0xBC, CHR 0x9A, CHR 0x0A]"

definition prompt_mid :: string where
  "prompt_mid =
     [CHR 0x0A, CHR 0x0A, CHR 0xE7, CHR 0x94, CHR 0xA8, CHR 0xE6, CHR 0x88, CHR 0xB7, CHR 0xE9,
      CHR 0x97, CHR 0xAE, CHR 0xE9, CHR 0xA2, CHR 0x98, CHR 0xEF, CHR 0xBC, CHR 0x9A]"

definition prompt_tail :: string where
  "prompt_tail =
     [CHR 0x0A, CHR 0x0A, CHR 0xE8, CHR 0xAF, CHR 0xB7, CHR 0xE6, CHR 0x8F, CHR 0x90, CHR 0xE4,
      CHR 0xBE, CHR 0x9B, CHR 0xE5, CHR 0x87, CHR 0x86, CHR 0xE7, CHR 0xA1, CHR 0xAE, CHR 0xE3,
      CHR 0x80, CHR 0x81, CHR 0xE5, CHR 0xAE, CHR 0x8C, CHR 0xE6, CHR 0x95, CHR 0xB4, CHR 0xE7,
      CHR 0x9A, CHR 0x84, CHR 0xE5, CHR 0x9B, CHR 0x9E, CHR 0xE7, CHR 0xAD, CHR 0x94, CHR 0xEF,
      CHR 0xBC, CHR 0x9A]"

text \<open>
  The loop \<^verbatim>\<open>for i, doc := range docs\<close>: \<open>i\<close> is the index of the head of the
  remaining slice and \<open>contextText\<close> the string built so far.
\<close>

fun context_loop :: "nat \<Rightarrow> string \<Rightarrow> 'a Document list \<Rightarrow> string" where
  "context_loop i contextText [] = contextText"
| "context_loop i contextText (doc # docs) =
     context_loop (i + 1)
       (contextText @ entry_label @ Sprintf_d (i + 1) @ '']: '' @ Content doc @ entry_end)
       docs"

definition BuildRAGPrompt :: "string \<Rightarrow> 'a Document list \<Rightarrow> string" where
  "BuildRAGPrompt query docs =
     (if length docs = 0 then query
      else (let contextText = context_loop 0 '''' docs
            in prompt_head @ contextText @ prompt_mid @ query @ prompt_tail))"

section \<open>Package user\<close>

text \<open>
  \<^verbatim>\<open>model.User\<close>, by the four fields \<open>Register\<close> sets. The three functions of the mysql
  package that the source calls each return a user pointer and an error; the package is
  a parameter that answers a call with such a pair. Each function of the user package
  returns, beside its result, the calls it made to the store, in order.
\<close>

record User =
  Email :: string
  Name :: string
  Username :: string
  Password :: string

datatype mysql_call =
  GetUserByUsername string
| GetUserByEmail string
| InsertUser User

type_synonym mysql = "mysql_call \<Rightarrow> User option \<times> error option"

definition IsExistUser :: "mysql \<Rightarrow> string \<Rightarrow> (bool \<times> User option) \<times> mysql_call list" where
  "IsExistUser db username =
     (let (u, err) = db (GetUserByUsername username);
          calls = [GetUserByUsername username]
      in if err = None \<and> u \<noteq> None then ((True, u), calls)
         else if err \<noteq> None \<and> err \<noteq> Some ErrRecordNotFound then ((False, None), calls)
         else (let (u, err) = db (GetUserByEmail username);
                   calls = calls @ [GetUserByEmail username]
               in if err = None \<and> u \<noteq> None then ((True, u), calls)
                  else if err \<noteq> None \<and> err \<noteq> Some ErrRecordNotFound then ((False, None), calls)
                  else ((False, None), calls)))"

text \<open>\<^verbatim>\<open>utils.MD5\<close> lies outside the two source files and is the parameter \<open>MD5\<close>.\<close>

definition Register ::
  "(string \<Rightarrow> string) \<Rightarrow> mysql \<Rightarrow> string \<Rightarrow> string \<Rightarrow> string
     \<Rightarrow> (User option \<times> bool) \<times> mysql_call list" where
  "Register MD5 db username email password =
     (let new = \<lparr>Email = email, Name = username, Username = username, Password = MD5 password\<rparr>;
          (user, err) = db (InsertUser new);
          calls = [InsertUser new]
      in if err \<noteq> None then ((None, False), calls)
         else ((user, True), calls))"

section \<open>Example inputs\<close>

text \<open>
  Concrete surroundings on which the theorems below are run: a file system with one
  readable file, an upload directory holding a sub-directory and one file, a search
  hit with the three returned fields, and two user stores (one holding the user
  \<open>alice\<close>, one whose connection fails).
\<close>

definition example_ReadFile :: "string \<Rightarrow> error + string" where
  "example_ReadFile path =
     (if path = ''notes.txt'' then Inr ''hello'' else Inl (ErrorString ''no such file''))"

definition example_env :: "(unit, string, string, unit) env" where
  "example_env =
     \<lparr>RagBaseUrl = ''http://embed'', RagEmbeddingModel = ''m1'',
      Getenv = (\<lambda>name. ''key''),
      NewEmbedder = (\<lambda>c. Inr (Model c)),
      ReadDir = (\<lambda>dir. if dir = ''uploads/alice''
                         then Inr [\<lparr>entry_Name = ''tmp'', IsDir = True\<rparr>,
                                   \<lparr>entry_Name = ''notes.txt'', IsDir = False\<rparr>]
                         else Inl (ErrorString ''no such directory'')),
      Rdb = (),
      GenerateIndexName = (\<lambda>f. ''idx:'' @ f),
      NewRetriever = (\<lambda>cfg. Inr (Index cfg))\<rparr>"

definition example_hit :: RedisDocument where
  "example_hit =
     \<lparr>hit_ID = ''notes.txt:doc_1'',
      Fields = [(''distance'', ''0.12''), (''content'', ''hello''), (''metadata'', ''notes.txt'')]\<rparr>"

definition alice :: User where
  "alice = \<lparr>Email = ''a@x.io'', Name = ''alice'', Username = ''alice'', Password = ''xxxxxx''\<rparr>"

definition example_db :: mysql where
  "example_db call =
     (case call of
        GetUserByUsername n \<Rightarrow>
          if n = ''alice'' then (Some alice, None) else (None, Some ErrRecordNotFound)
      | GetUserByEmail e \<Rightarrow>
          if e = ''a@x.io'' then (Some alice, None) else (None, Some ErrRecordNotFound)
      | InsertUser u \<Rightarrow>
          if Username u = ''alice'' then (None, Some (ErrorString ''Duplicate entry''))
          else (Some u, None))"



section \<open>Properties of the document mapper\<close>

text \<open>
  C1. For every document \<open>D\<close> whose metadata holds the string \<open>S\<close> under
  \<open>''source''\<close>, the mapper returns a record whose key is the knowledge-base name, a
  colon and \<open>D\<close>'s id, whose \<open>content\<close> field holds \<open>D\<close>'s content with embed target
  \<open>''vector''\<close>, and whose \<open>metadata\<close> field holds \<open>S\<close> itself, not embedded.
\<close>

theorem DocumentToHashes_source_label:
  assumes "MetaData D ''source'' = Some (AnyString S)"
  shows "\<exists>h. DocumentToHashes kb D = Inr h \<and>
             Key h = kb @ '':'' @ ID D \<and>
             Field2Value h ''content'' = Some \<lparr>Value = AnyString (Content D), EmbedKey = ''vector''\<rparr> \<and>
             Field2Value h ''metadata'' = Some \<lparr>Value = AnyString S, EmbedKey = ''''\<rparr>"
  using assms by (simp add: DocumentToHashes_def)

theorem DocumentToHashes_source_label_witness:
  "MetaData \<lparr>ID = ''doc_1'', Content = ''text'', MetaData = [''source'' \<mapsto> AnyString ''a.txt'' :: unit any]\<rparr> ''source''
     = Some (AnyString ''a.txt'') \<and>
   (\<exists>h. DocumentToHashes ''kb''
           \<lparr>ID = ''doc_1'', Content = ''text'', MetaData = [''source'' \<mapsto> AnyString ''a.txt'' :: unit any]\<rparr> = Inr h \<and>
        Key h = ''kb:doc_1'' \<and>
        Field2Value h ''content'' = Some \<lparr>Value = AnyString ''text'', EmbedKey = ''vector''\<rparr> \<and>
        Field2Value h ''metadata'' = Some \<lparr>Value = AnyString ''a.txt'', EmbedKey = ''''\<rparr>)"
  using DocumentToHashes_source_label
    [of "\<lparr>ID = ''doc_1'', Content = ''text'', MetaData = [''source'' \<mapsto> AnyString ''a.txt'' :: unit any]\<rparr>"
        "''a.txt''" "''kb''"]
  by simp

text \<open>
  C10. The mapper never returns an error: for every knowledge-base name and every
  document it returns a record, and when the metadata has no \<open>''source''\<close> entry, or
  holds a value that is not a string there, the \<open>metadata\<close> field of that record is
  the empty string.
\<close>

theorem DocumentToHashes_total:
  "\<exists>h. DocumentToHashes kb D = Inr h \<and>
        (MetaData D ''source'' = None \<or> (\<exists>v. MetaData D ''source'' = Some (AnyOther v)) \<longrightarrow>
           Field2Value h ''metadata'' = Some \<lparr>Value = AnyString '''', EmbedKey = ''''\<rparr>)"
  by (auto simp: DocumentToHashes_def)

theorem DocumentToHashes_total_witness:
  "(MetaData \<lparr>ID = ''doc_1'', Content = ''text'', MetaData = (Map.empty :: string \<rightharpoonup> nat any)\<rparr> ''source'' = None \<and>
    (\<exists>h. DocumentToHashes ''kb'' \<lparr>ID = ''doc_1'', Content = ''text'', MetaData = (Map.empty :: string \<rightharpoonup> nat any)\<rparr> = Inr h \<and>
         Field2Value h ''metadata'' = Some \<lparr>Value = AnyString '''', EmbedKey = ''''\<rparr>)) \<and>
   (MetaData \<lparr>ID = ''doc_1'', Content = ''text'', MetaData = [''source'' \<mapsto> AnyOther (7::nat)]\<rparr> ''source''
      = Some (AnyOther 7) \<and>
    (\<exists>h. DocumentToHashes ''kb'' \<lparr>ID = ''doc_1'', Content = ''text'', MetaData = [''source'' \<mapsto> AnyOther (7::nat)]\<rparr> = Inr h \<and>
         Field2Value h ''metadata'' = Some \<lparr>Value = AnyString '''', EmbedKey = ''''\<rparr>))"
  using DocumentToHashes_total
      [of "''kb''" "\<lparr>ID = ''doc_1'', Content = ''text'', MetaData = (Map.empty :: string \<rightharpoonup> nat any)\<rparr>"]
    DocumentToHashes_total
      [of "''kb''" "\<lparr>ID = ''doc_1'', Content = ''text'', MetaData = [''source'' \<mapsto> AnyOther (7::nat)]\<rparr>"]
  by simp

section \<open>Properties of IndexFile and DeleteIndex\<close>

text \<open>
  C4. For every path whose bytes can be read, \<open>IndexFile\<close> makes exactly one call of
  the indexer's \<open>Store\<close>, with exactly one document: its id is the constant
  \<open>''doc_1''\<close>, its content the whole content of the file, whatever its length, and its
  metadata the path under \<open>''source''\<close>. The call fails or succeeds with \<open>Store\<close>.
\<close>

theorem IndexFile_single_document:
  assumes "ReadFile filePath = Inr content"
  shows "snd (IndexFile ReadFile Store filePath) =
           [[\<lparr>ID = ''doc_1'', Content = content, MetaData = [''source'' \<mapsto> AnyString filePath]\<rparr>]] \<and>
         fst (IndexFile ReadFile Store filePath) =
           (case Store [\<lparr>ID = ''doc_1'', Content = content, MetaData = [''source'' \<mapsto> AnyString filePath]\<rparr>] of
              Inl err \<Rightarrow> Some (WrapError ''failed to store document'' err)
            | Inr ids \<Rightarrow> None)"
  using assms by (simp add: IndexFile_def Let_def split: sum.split)

theorem IndexFile_single_document_witness:
  "example_ReadFile ''notes.txt'' = Inr ''hello'' \<and>
   IndexFile example_ReadFile (\<lambda>docs. Inr (map ID docs)) ''notes.txt'' =
     (None, [[\<lparr>ID = ''doc_1'', Content = ''hello'',
               MetaData = [''source'' \<mapsto> AnyString ''notes.txt'' :: unit any]\<rparr>]])"
proof -
  have readable: "example_ReadFile ''notes.txt'' = Inr ''hello''"
    by (simp add: example_ReadFile_def)
  with IndexFile_single_document
    [of example_ReadFile "''notes.txt''" "''hello''" "\<lambda>docs :: unit Document list. Inr (map ID docs)"]
  show ?thesis
    by (simp add: prod_eq_iff)
qed

text \<open>
  \<open>DeleteIndex\<close> succeeds exactly when the store's deletion does, and otherwise hands
  back the store's error under one fixed message, whatever that error is.
\<close>

lemma DeleteIndex_propagates:
  "(DeleteIndex DeleteRedisIndex filename = None) = (DeleteRedisIndex filename = None)"
  "DeleteRedisIndex filename = Some err \<Longrightarrow>
     DeleteIndex DeleteRedisIndex filename = Some (WrapError ''failed to delete redis index'' err)"
  by (simp_all add: DeleteIndex_def split: option.split)

section \<open>Properties of NewRAGQuery\<close>

text \<open>
  The converter's loop, over a field list with pairwise distinct keys: the id is left
  alone, the content is the value of the \<open>content\<close> entry when there is one, and every
  other entry is stored in the metadata under its own key.
\<close>

lemma convert_fields_ID: "ID (convert_fields fs resp) = ID resp"
  by (induction fs resp rule: convert_fields.induct) simp_all

lemma convert_fields_Content:
  "distinct (map fst fs) \<Longrightarrow>
   Content (convert_fields fs resp) =
     (case map_of fs ''content'' of Some v \<Rightarrow> v | None \<Rightarrow> Content resp)"
proof (induction fs resp rule: convert_fields.induct)
  case (1 resp)
  show ?case by simp
next
  case (2 field val rest resp)
  then have "field = ''content'' \<Longrightarrow> map_of rest ''content'' = None"
    by (simp add: map_of_eq_None_iff)
  with 2 show ?case
    by (simp split: option.split)
qed

lemma convert_fields_MetaData:
  "distinct (map fst fs) \<Longrightarrow>
   MetaData (convert_fields fs resp) field =
     (if field = ''content'' then MetaData resp field
      else case map_of fs field of Some v \<Rightarrow> Some (AnyString v) | None \<Rightarrow> MetaData resp field)"
proof (induction fs resp rule: convert_fields.induct)
  case (1 resp)
  show ?case by simp
next
  case (2 f val rest resp)
  then have "map_of rest f = None"
    by (simp add: map_of_eq_None_iff)
  with 2 show ?case
    by (auto split: option.split)
qed

lemma convert_hit_shape:
  assumes "distinct (map fst (Fields hit))"
  shows "\<exists>d. convert_hit hit = Inr d \<and> ID d = hit_ID hit \<and>
             Content d = (case map_of (Fields hit) ''content'' of Some v \<Rightarrow> v | None \<Rightarrow> '''') \<and>
             MetaData d ''content'' = None \<and>
             (\<forall>field. field \<noteq> ''content'' \<longrightarrow>
                MetaData d field = map_option AnyString (map_of (Fields hit) field))"
  using assms
  by (simp add: convert_hit_def convert_fields_ID convert_fields_Content convert_fields_MetaData
        split: option.split)

text \<open>A query object is returned only on the path that built the retriever.\<close>

lemma NewRAGQuery_Inr:
  assumes "NewRAGQuery E username = Inr q"
  shows "NewRetriever E (retrieverConfig (Rdb E) (GenerateIndexName E (first_file
            (projr (ReadDir E (''uploads/'' @ username))))) (embedding q)) = Inr (retriever q)"
  using assms
  by (auto simp: NewRAGQuery_def Let_def split: sum.splits if_splits)

text \<open>
  C6. Whenever \<open>NewRAGQuery\<close> returns a query object, its retriever was built from a
  configuration with result count 5 and similarity field \<open>''vector''\<close>, whose converter
  turns every hit (a field map, keys distinct) into a document: the value of the hit's
  \<open>content\<close> field is the document's content, and every other field of the hit is a
  metadata entry of the document, under the same key and with the same value.
\<close>

theorem NewRAGQuery_retriever:
  assumes "NewRAGQuery E username = Inr q"
  shows "\<exists>cfg. NewRetriever E cfg = Inr (retriever q) \<and>
               TopK cfg = 5 \<and> VectorField cfg = ''vector'' \<and>
               (\<forall>hit. distinct (map fst (Fields hit)) \<longrightarrow>
                  (\<exists>d. DocumentConverter cfg hit = Inr d \<and>
                       Content d = (case map_of (Fields hit) ''content'' of Some v \<Rightarrow> v | None \<Rightarrow> '''') \<and>
                       MetaData d ''content'' = None \<and>
                       (\<forall>field. field \<noteq> ''content'' \<longrightarrow>
                          MetaData d field = map_option AnyString (map_of (Fields hit) field))))"
proof -
  let ?cfg = "retrieverConfig (Rdb E) (GenerateIndexName E (first_file
            (projr (ReadDir E (''uploads/'' @ username))))) (embedding q)"
  have built: "NewRetriever E ?cfg = Inr (retriever q)"
    using assms by (rule NewRAGQuery_Inr)
  have bound: "TopK ?cfg = 5" "VectorField ?cfg = ''vector''"
    by (simp_all add: retrieverConfig_def)
  have conv: "DocumentConverter ?cfg = convert_hit"
    by (simp add: retrieverConfig_def)
  have "\<forall>hit. distinct (map fst (Fields hit)) \<longrightarrow>
          (\<exists>d. DocumentConverter ?cfg hit = Inr d \<and>
               Content d = (case map_of (Fields hit) ''content'' of Some v \<Rightarrow> v | None \<Rightarrow> '''') \<and>
               MetaData d ''content'' = None \<and>
               (\<forall>field. field \<noteq> ''content'' \<longrightarrow>
                  MetaData d field = map_option AnyString (map_of (Fields hit) field)))"
    unfolding conv using convert_hit_shape by blast
  with built bound show ?thesis
    by blast
qed

theorem NewRAGQuery_retriever_witness:
  "NewRAGQuery example_env ''alice'' = Inr \<lparr>embedding = ''m1'', retriever = ''idx:notes.txt''\<rparr> \<and>
   distinct (map fst (Fields example_hit)) \<and>
   (\<exists>cfg. NewRetriever example_env cfg = Inr ''idx:notes.txt'' \<and>
          TopK cfg = 5 \<and> VectorField cfg = ''vector'' \<and>
          (\<exists>d. DocumentConverter cfg example_hit = Inr d \<and>
               Content d = ''hello'' \<and>
               MetaData d ''content'' = None \<and>
               MetaData d ''metadata'' = Some (AnyString ''notes.txt'') \<and>
               MetaData d ''distance'' = Some (AnyString ''0.12'')))"
proof -
  have built: "NewRAGQuery example_env ''alice'' = Inr \<lparr>embedding = ''m1'', retriever = ''idx:notes.txt''\<rparr>"
    by (simp add: NewRAGQuery_def example_env_def retrieverConfig_def)
  have keys: "distinct (map fst (Fields example_hit))"
    by (simp add: example_hit_def)
  from NewRAGQuery_retriever [OF built] obtain cfg where
    cfg: "NewRetriever example_env cfg = Inr ''idx:notes.txt''" "TopK cfg = 5" "VectorField cfg = ''vector''"
    and conv: "\<forall>hit. distinct (map fst (Fields hit)) \<longrightarrow>
                (\<exists>d. DocumentConverter cfg hit = Inr d \<and>
                     Content d = (case map_of (Fields hit) ''content'' of Some v \<Rightarrow> v | None \<Rightarrow> '''') \<and>
                     MetaData d ''content'' = None \<and>
                     (\<forall>field. field \<noteq> ''content'' \<longrightarrow>
                        MetaData d field = map_option AnyString (map_of (Fields hit) field)))"
    by auto
  from conv keys obtain d where
    d: "DocumentConverter cfg example_hit = Inr d"
       "Content d = (case map_of (Fields example_hit) ''content'' of Some v \<Rightarrow> v | None \<Rightarrow> '''')"
       "MetaData d ''content'' = None"
       "\<forall>field. field \<noteq> ''content'' \<longrightarrow>
          MetaData d field = map_option AnyString (map_of (Fields example_hit) field)"
    by blast
  have "Content d = ''hello''"
    using d(2) by (simp add: example_hit_def)
  moreover have "MetaData d ''metadata'' = Some (AnyString ''notes.txt'')"
    using d(4) by (simp add: example_hit_def)
  moreover have "MetaData d ''distance'' = Some (AnyString ''0.12'')"
    using d(4) by (simp add: example_hit_def)
  ultimately show ?thesis
    using built keys cfg d(1,3) by blast
qed

section \<open>Properties of the prompt builder\<close>

text \<open>
  The loop appends one entry per document: the entry of the document at index \<open>k\<close>
  carries the number \<open>i + k + 1\<close>, where \<open>i\<close> is the index the loop starts from.
\<close>

lemma context_loop_entries:
  "context_loop i contextText docs =
     contextText @
     concat (map (\<lambda>k. entry_label @ Sprintf_d (i + k + 1) @ '']: '' @ Content (docs ! k) @ entry_end)
                 [0..<length docs])"
proof (induction docs arbitrary: i contextText)
  case Nil
  show ?case by simp
next
  case (Cons doc docs)
  show ?case
    by (simp add: Cons.IH map_upt_Suc del: upt_Suc)
qed

text \<open>The number printed in a label reads back as the number itself.\<close>

lemma digit_value: "d < 10 \<Longrightarrow> of_char (digit d) = (48 + d :: nat)"
proof -
  assume "d < 10"
  then consider "d = 0" | "d = 1" | "d = 2" | "d = 3" | "d = 4" | "d = 5" | "d = 6" | "d = 7"
    | "d = 8" | "d = 9"
    by atomize_elim arith
  then show ?thesis
    by cases (simp_all add: digit_def)
qed

lemma Sprintf_d_decimal:
  "foldl (\<lambda>a c. 10 * a + (of_char c - 48)) 0 (Sprintf_d n) = n"
proof (induction n rule: Sprintf_d.induct)
  case (1 n)
  show ?case
  proof (cases "n < 10")
    case True
    then show ?thesis
      by (subst Sprintf_d.simps) (simp add: digit_value)
  next
    case False
    then show ?thesis
      using "1.IH" by (subst Sprintf_d.simps) (simp add: digit_value)
  qed
qed

text \<open>
  C3. For every query string \<open>q\<close>, the prompt built from \<open>q\<close> and the empty document
  list is \<open>q\<close> unchanged.
\<close>

theorem BuildRAGPrompt_no_documents: "BuildRAGPrompt q [] = q"
  by (simp add: BuildRAGPrompt_def)

text \<open>
  C2, as the claim states it: the query is the end of the prompt. It is not: the
  template closes with a fixed instruction line after the query, so a prompt built from
  the query \<open>''q''\<close> and one document does not end in \<open>''q''\<close>.
\<close>

theorem BuildRAGPrompt_query_not_last:
  "\<not> suffix ''q'' (BuildRAGPrompt ''q'' [\<lparr>ID = ''doc_1'', Content = ''a'', MetaData = Map.empty\<rparr>])"
  by (simp add: BuildRAGPrompt_def prompt_tail_def suffix_to_prefix)

text \<open>
  C2, amended. For every query \<open>q\<close> and every non-empty list of documents, the prompt
  is the fixed head of the template, then exactly one entry per document in input
  order, the entry of the \<open>k\<close>-th document (counting from 0) being the label numbered
  \<open>k + 1\<close> followed by that document's content, then the fixed separator, \<open>q\<close>
  verbatim, and the fixed closing instruction, which alone follows \<open>q\<close>.
\<close>

theorem BuildRAGPrompt_entries:
  assumes "docs \<noteq> []"
  shows "BuildRAGPrompt q docs =
     prompt_head @
     concat (map (\<lambda>k. entry_label @ Sprintf_d (k + 1) @ '']: '' @ Content (docs ! k) @ entry_end)
                 [0..<length docs]) @
     prompt_mid @ q @ prompt_tail"
  using assms by (simp add: BuildRAGPrompt_def context_loop_entries)

theorem BuildRAGPrompt_entries_witness:
  "[\<lparr>ID = ''x'', Content = ''a'', MetaData = Map.empty\<rparr>,
    \<lparr>ID = ''y'', Content = ''b'', MetaData = Map.empty :: string \<rightharpoonup> unit any\<rparr>] \<noteq> [] \<and>
   BuildRAGPrompt ''q''
     [\<lparr>ID = ''x'', Content = ''a'', MetaData = Map.empty\<rparr>,
      \<lparr>ID = ''y'', Content = ''b'', MetaData = Map.empty :: string \<rightharpoonup> unit any\<rparr>] =
   prompt_head @ entry_label @ ''1]: a'' @ entry_end @ entry_label @ ''2]: b'' @ entry_end @
   prompt_mid @ ''q'' @ prompt_tail"
  using BuildRAGPrompt_entries
    [of "[\<lparr>ID = ''x'', Content = ''a'', MetaData = Map.empty\<rparr>,
          \<lparr>ID = ''y'', Content = ''b'', MetaData = Map.empty :: string \<rightharpoonup> unit any\<rparr>]" "''q''"]
  by (simp add: Sprintf_d.simps digit_def upt_rec)

section \<open>Properties of the user package\<close>

text \<open>The two lookups of \<open>IsExistUser\<close>, case by case on the answers of the store.\<close>

lemma IsExistUser_cases:
  "IsExistUser db n =
     (case db (GetUserByUsername n) of
        (Some u, None) \<Rightarrow> ((True, Some u), [GetUserByUsername n])
      | (u, err) \<Rightarrow>
          if err \<noteq> None \<and> err \<noteq> Some ErrRecordNotFound
          then ((False, None), [GetUserByUsername n])
          else (case db (GetUserByEmail n) of
                  (Some u', None) \<Rightarrow> ((True, Some u'), [GetUserByUsername n, GetUserByEmail n])
                | _ \<Rightarrow> ((False, None), [GetUserByUsername n, GetUserByEmail n])))"
  by (auto simp: IsExistUser_def Let_def split: prod.splits option.splits)

text \<open>
  C5. When the store answers record-not-found to the lookup by username and to the
  lookup by email that follows it, \<open>IsExistUser\<close> returns \<open>false\<close> with no user (its
  result has no error component, so the not-found error goes no further). When the
  store's lookup by username succeeds, \<open>IsExistUser\<close> returns \<open>true\<close> with the user
  the store gave and asks nothing more; when the lookup by username reports
  record-not-found (or no user and no error) and the store's lookup by email
  succeeds, it returns \<open>true\<close> with that user. The lookups made are exactly those
  named, in that order; and whichever lookup \<open>IsExistUser\<close> makes, if it succeeds the
  result is \<open>true\<close> with its user. (After any other error of the lookup by username
  no lookup by email follows: that case is C9.)
\<close>

theorem IsExistUser_found_or_not:
  "(snd (db (GetUserByUsername n)) = Some ErrRecordNotFound \<and>
    snd (db (GetUserByEmail n)) = Some ErrRecordNotFound \<longrightarrow>
      IsExistUser db n = ((False, None), [GetUserByUsername n, GetUserByEmail n])) \<and>
   (\<forall>u. db (GetUserByUsername n) = (Some u, None) \<longrightarrow>
      IsExistUser db n = ((True, Some u), [GetUserByUsername n])) \<and>
   (\<forall>u. (snd (db (GetUserByUsername n)) = Some ErrRecordNotFound \<or>
         db (GetUserByUsername n) = (None, None)) \<and>
        db (GetUserByEmail n) = (Some u, None) \<longrightarrow>
      IsExistUser db n = ((True, Some u), [GetUserByUsername n, GetUserByEmail n])) \<and>
   (\<forall>call \<in> set (snd (IsExistUser db n)). \<forall>u. db call = (Some u, None) \<longrightarrow>
      fst (IsExistUser db n) = (True, Some u))"
proof (intro conjI allI impI ballI)
  assume "snd (db (GetUserByUsername n)) = Some ErrRecordNotFound \<and>
          snd (db (GetUserByEmail n)) = Some ErrRecordNotFound"
  then show "IsExistUser db n = ((False, None), [GetUserByUsername n, GetUserByEmail n])"
    by (auto simp: IsExistUser_cases split: prod.splits option.splits)
next
  fix u
  assume "db (GetUserByUsername n) = (Some u, None)"
  then show "IsExistUser db n = ((True, Some u), [GetUserByUsername n])"
    by (simp add: IsExistUser_cases)
next
  fix u
  assume "(snd (db (GetUserByUsername n)) = Some ErrRecordNotFound \<or>
           db (GetUserByUsername n) = (None, None)) \<and>
          db (GetUserByEmail n) = (Some u, None)"
  then show "IsExistUser db n = ((True, Some u), [GetUserByUsername n, GetUserByEmail n])"
    by (auto simp: IsExistUser_cases split: prod.splits option.splits)
next
  fix call u
  assume "call \<in> set (snd (IsExistUser db n))" and "db call = (Some u, None)"
  then show "fst (IsExistUser db n) = (True, Some u)"
    by (auto simp: IsExistUser_cases split: prod.splits option.splits if_splits)
qed

theorem IsExistUser_found_or_not_witness:
  "(snd (example_db (GetUserByUsername ''bob'')) = Some ErrRecordNotFound \<and>
    snd (example_db (GetUserByEmail ''bob'')) = Some ErrRecordNotFound \<and>
    IsExistUser example_db ''bob'' =
      ((False, None), [GetUserByUsername ''bob'', GetUserByEmail ''bob''])) \<and>
   (example_db (GetUserByUsername ''alice'') = (Some alice, None) \<and>
    GetUserByUsername ''alice'' \<in> set (snd (IsExistUser example_db ''alice'')) \<and>
    IsExistUser example_db ''alice'' = ((True, Some alice), [GetUserByUsername ''alice''])) \<and>
   (snd (example_db (GetUserByUsername ''a@x.io'')) = Some ErrRecordNotFound \<and>
    example_db (GetUserByEmail ''a@x.io'') = (Some alice, None) \<and>
    GetUserByEmail ''a@x.io'' \<in> set (snd (IsExistUser example_db ''a@x.io'')) \<and>
    IsExistUser example_db ''a@x.io'' =
      ((True, Some alice), [GetUserByUsername ''a@x.io'', GetUserByEmail ''a@x.io'']))"
  using IsExistUser_found_or_not [of example_db "''bob''"]
    IsExistUser_found_or_not [of example_db "''alice''"]
    IsExistUser_found_or_not [of example_db "''a@x.io''"]
  by (simp add: example_db_def)



text \<open>
  C8. For every username, email and password, \<open>Register\<close> makes one insert, of a user
  whose \<open>Password\<close> is the MD5 hash of the password and whose \<open>Name\<close> and \<open>Username\<close>
  are both the username; it returns no user and \<open>false\<close> when the insert fails, and
  the user the store returns with \<open>true\<close> otherwise. The password reaches the store
  through \<open>MD5\<close> only: two passwords with one hash give one and the same run.
\<close>

theorem Register_hashes_password:
  "snd (Register MD5 db username email password) =
     [InsertUser \<lparr>Email = email, Name = username, Username = username, Password = MD5 password\<rparr>] \<and>
   (snd (db (InsertUser \<lparr>Email = email, Name = username, Username = username, Password = MD5 password\<rparr>)) \<noteq> None \<longrightarrow>
      fst (Register MD5 db username email password) = (None, False)) \<and>
   (snd (db (InsertUser \<lparr>Email = email, Name = username, Username = username, Password = MD5 password\<rparr>)) = None \<longrightarrow>
      fst (Register MD5 db username email password) =
        (fst (db (InsertUser \<lparr>Email = email, Name = username, Username = username, Password = MD5 password\<rparr>)), True)) \<and>
   (MD5 password' = MD5 password \<longrightarrow>
      Register MD5 db username email password' = Register MD5 db username email password)"
  by (simp add: Register_def Let_def split: prod.split)

theorem Register_hashes_password_witness:
  "(snd (example_db (InsertUser \<lparr>Email = ''a@x.io'', Name = ''alice'', Username = ''alice'',
                               Password = map (\<lambda>c. CHR ''x'') ''secret''\<rparr>)) \<noteq> None \<and>
    Register (map (\<lambda>c. CHR ''x'')) example_db ''alice'' ''a@x.io'' ''secret'' =
      ((None, False), [InsertUser alice])) \<and>
   (snd (example_db (InsertUser \<lparr>Email = ''b@x.io'', Name = ''bob'', Username = ''bob'',
                               Password = map (\<lambda>c. CHR ''x'') ''secret''\<rparr>)) = None \<and>
    Register (map (\<lambda>c. CHR ''x'')) example_db ''bob'' ''b@x.io'' ''secret'' =
      ((Some \<lparr>Email = ''b@x.io'', Name = ''bob'', Username = ''bob'', Password = ''xxxxxx''\<rparr>, True),
       [InsertUser \<lparr>Email = ''b@x.io'', Name = ''bob'', Username = ''bob'', Password = ''xxxxxx''\<rparr>])) \<and>
   (map (\<lambda>c. CHR ''x'') ''terces'' = map (\<lambda>c. CHR ''x'') ''secret'' \<and>
    Register (map (\<lambda>c. CHR ''x'')) example_db ''bob'' ''b@x.io'' ''terces'' =
      Register (map (\<lambda>c. CHR ''x'')) example_db ''bob'' ''b@x.io'' ''secret'')"
  using Register_hashes_password [of "map (\<lambda>c. CHR ''x'')" example_db "''alice''" "''a@x.io''" "''secret''"]
    Register_hashes_password [of "map (\<lambda>c. CHR ''x'')" example_db "''bob''" "''b@x.io''" "''secret''" "''terces''"]
  by (simp add: example_db_def alice_def Register_def Let_def)

end
